theory Spec2Isabelle
  imports Complex_Main "HOL-Library.AList" "HOL-Library.Multiset" "HOL-Library.Option_ord"
begin

section \<open>WordSeer: the frequent words controller\<close>

text \<open>
  A shallow embedding of \<^verbatim>\<open>FrequentWordsController.js\<close>: the option toggles of the
  frequent-words list (\<^verbatim>\<open>optionEvent\<close>, \<^verbatim>\<open>applyFilters\<close>, \<^verbatim>\<open>applySorter\<close>), the slice
  loader (\<^verbatim>\<open>getFrequentWordForSlice\<close>), the overlay (\<^verbatim>\<open>showFrequentWordsOverlay\<close>) and
  the per-row dot-and-line chart (\<^verbatim>\<open>lollipop\<close>).

  The controller is glue between two libraries that are not part of the sources: the
  component and store classes of the UI framework and the selection, maximum and scale
  functions of the charting library. Each library call the controller makes is a
  definition of its own below, marked as modelled from the specification; the controller
  functions are translated line by line on top of them.
\<close>

subsection \<open>JavaScript numbers\<close>

text \<open>
  A JavaScript number is modelled as an exact rational, the two infinities, or
  not-a-number. Rounding of binary floating point and the sign of zero are not modelled:
  arithmetic on finite values is exact, and division of a nonzero finite value by zero
  takes the sign of the dividend.
\<close>

datatype number = Num rat | PosInf | NegInf | NaN

fun num_neg :: "number \<Rightarrow> number" where
  "num_neg (Num a) = Num (- a)"
| "num_neg PosInf = NegInf"
| "num_neg NegInf = PosInf"
| "num_neg NaN = NaN"

fun num_add :: "number \<Rightarrow> number \<Rightarrow> number" where
  "num_add (Num a) (Num b) = Num (a + b)"
| "num_add NaN _ = NaN"
| "num_add _ NaN = NaN"
| "num_add PosInf NegInf = NaN"
| "num_add NegInf PosInf = NaN"
| "num_add PosInf _ = PosInf"
| "num_add NegInf _ = NegInf"
| "num_add (Num a) b = b"

definition signed_inf :: "bool \<Rightarrow> number" where
  "signed_inf positive = (if positive then PosInf else NegInf)"

fun num_mul :: "number \<Rightarrow> number \<Rightarrow> number" where
  "num_mul (Num a) (Num b) = Num (a * b)"
| "num_mul NaN _ = NaN"
| "num_mul _ NaN = NaN"
| "num_mul PosInf (Num b) = (if b = 0 then NaN else signed_inf (0 < b))"
| "num_mul NegInf (Num b) = (if b = 0 then NaN else signed_inf (b < 0))"
| "num_mul (Num a) PosInf = (if a = 0 then NaN else signed_inf (0 < a))"
| "num_mul (Num a) NegInf = (if a = 0 then NaN else signed_inf (a < 0))"
| "num_mul PosInf PosInf = PosInf"
| "num_mul NegInf NegInf = PosInf"
| "num_mul PosInf NegInf = NegInf"
| "num_mul NegInf PosInf = NegInf"

fun num_div :: "number \<Rightarrow> number \<Rightarrow> number" where
  "num_div (Num a) (Num b) =
     (if b \<noteq> 0 then Num (a / b) else if a = 0 then NaN else signed_inf (0 < a))"
| "num_div NaN _ = NaN"
| "num_div _ NaN = NaN"
| "num_div (Num a) PosInf = Num 0"
| "num_div (Num a) NegInf = Num 0"
| "num_div PosInf (Num b) = signed_inf (0 \<le> b)"
| "num_div NegInf (Num b) = signed_inf (b < 0)"
| "num_div PosInf PosInf = NaN"
| "num_div PosInf NegInf = NaN"
| "num_div NegInf PosInf = NaN"
| "num_div NegInf NegInf = NaN"

instantiation number :: "{plus, minus, times, inverse}"
begin

definition plus_number :: "number \<Rightarrow> number \<Rightarrow> number" where
  "plus_number a b = num_add a b"

definition minus_number :: "number \<Rightarrow> number \<Rightarrow> number" where
  "minus_number a b = num_add a (num_neg b)"

definition times_number :: "number \<Rightarrow> number \<Rightarrow> number" where
  "times_number a b = num_mul a b"

definition divide_number :: "number \<Rightarrow> number \<Rightarrow> number" where
  "divide_number a b = num_div a b"

definition inverse_number :: "number \<Rightarrow> number" where
  "inverse_number a = num_div (Num 1) a"

instance ..

end

text \<open>The comparison \<^verbatim>\<open>b > a\<close>: false as soon as one side is not-a-number.\<close>

fun num_gt :: "number \<Rightarrow> number \<Rightarrow> bool" where
  "num_gt (Num b) (Num a) = (a < b)"
| "num_gt NaN _ = False"
| "num_gt _ NaN = False"
| "num_gt PosInf PosInf = False"
| "num_gt PosInf _ = True"
| "num_gt NegInf _ = False"
| "num_gt (Num b) PosInf = False"
| "num_gt (Num b) NegInf = True"

text \<open>The self-comparison \<^verbatim>\<open>b >= b\<close>, which only not-a-number fails.\<close>

fun num_self_ge :: "number \<Rightarrow> bool" where
  "num_self_ge NaN = False"
| "num_self_ge _ = True"

text \<open>
  The unary plus of \<^verbatim>\<open>+d.score_sentences\<close>. A property that is absent reads as
  \<^verbatim>\<open>undefined\<close> and coerces to not-a-number; a string is converted by the language's
  string-to-number conversion, which is a parameter \<open>parse\<close> of the model.
\<close>

definition unary_plus :: "(string \<Rightarrow> number) \<Rightarrow> string option \<Rightarrow> number" where
  "unary_plus parse v = (case v of None \<Rightarrow> NaN | Some s \<Rightarrow> parse s)"

text \<open>The coercion of a value that may be \<^verbatim>\<open>undefined\<close> where a number is expected.\<close>

definition to_number :: "number option \<Rightarrow> number" where
  "to_number v = (case v of None \<Rightarrow> NaN | Some x \<Rightarrow> x)"

text \<open>
  A string-to-number conversion for the concrete rows used below. It agrees with the
  language on the empty string (zero) and on strings of decimal digits; every other
  string is taken to be malformed. The general statements do not depend on it.
\<close>

definition digit_of :: "char \<Rightarrow> nat option" where
  "digit_of c = map_of
     [(CHR ''0'', 0), (CHR ''1'', 1), (CHR ''2'', 2), (CHR ''3'', 3), (CHR ''4'', 4),
      (CHR ''5'', 5), (CHR ''6'', 6), (CHR ''7'', 7), (CHR ''8'', 8), (CHR ''9'', 9)] c"

fun digits_value :: "nat \<Rightarrow> string \<Rightarrow> nat option" where
  "digits_value acc [] = Some acc"
| "digits_value acc (c # cs) =
     (case digit_of c of None \<Rightarrow> None | Some d \<Rightarrow> digits_value (10 * acc + d) cs)"

definition decimal :: "string \<Rightarrow> number" where
  "decimal s = (case digits_value 0 s of None \<Rightarrow> NaN | Some n \<Rightarrow> Num (of_nat n))"

subsection \<open>The charting library\<close>

text \<open>
  The element of a row that carries the chart (\<^verbatim>\<open>.distinct .lollipop\<close>): its
  \<^verbatim>\<open>data-*\<close> attributes, read through \<^verbatim>\<open>this.dataset\<close>, and its child elements.
  An SVG element is its tag and the attributes set on it, in the order they were set.
\<close>

record svg_element =
  tag :: string
  attrs :: "(string \<times> number) list"

record node =
  dataset :: "(string \<times> string) list"
  children :: "svg_element list"

text \<open>
  Modelled from the spec: \<^verbatim>\<open>d3.max\<close> (the charting library is not part of the sources).
  It is the maximum of the coerced scores of the row set, and \<^verbatim>\<open>undefined\<close> (\<open>None\<close>)
  for the empty set. Values that do not compare to themselves are passed over, as the
  library documents, so that a malformed score does not become the maximum.
\<close>

fun d3_max :: "number list \<Rightarrow> number option" where
  "d3_max [] = None"
| "d3_max (b # bs) =
     (if num_self_ge b then Some (fold (\<lambda>b a. if num_gt b a then b else a) bs b)
      else d3_max bs)"

text \<open>
  Modelled from the spec: \<^verbatim>\<open>d3.scale.linear().domain([d0, d1]).range([r0, r1])\<close> (the
  charting library is not part of the sources). The scale is the linear interpolation
  that sends \<open>d0\<close> to \<open>r0\<close> and \<open>d1\<close> to \<open>r1\<close> and is not clamped; for the domain
  \<open>[0, maxScore]\<close> and the range \<open>[r, 100 - r]\<close> it is the specification's
  \<open>scale(x) = r + (x / maxScore) * (100 - 2r)\<close>.
\<close>

record linear_scale =
  domain_lo :: number
  domain_hi :: number
  range_lo :: number
  range_hi :: number

definition scale_linear :: "number \<times> number \<Rightarrow> number \<times> number \<Rightarrow> linear_scale" where
  "scale_linear d r =
     \<lparr>domain_lo = fst d, domain_hi = snd d, range_lo = fst r, range_hi = snd r\<rparr>"

definition scale_apply :: "linear_scale \<Rightarrow> number \<Rightarrow> number" where
  "scale_apply s x =
     range_lo s + ((x - domain_lo s) / (domain_hi s - domain_lo s)) * (range_hi s - range_lo s)"

text \<open>
  Modelled from the spec: the selection calls of the charting library.
  \<^verbatim>\<open>selectAll(..).datum(function(){ return this.dataset; })\<close> binds to every chart
  element its own data attributes, so \<^verbatim>\<open>selection.data()\<close> is the list of the datasets;
  \<^verbatim>\<open>selection.append(tag)\<close> adds one new child with that tag to every element of the
  selection, and each \<^verbatim>\<open>.attr(name, value)\<close> that follows sets an attribute on the new
  child, from the datum of its row when the value is a function. The child is built here
  with its attributes and then appended, which is the same element.
\<close>

definition selection_data :: "node list \<Rightarrow> (string \<times> string) list list" where
  "selection_data svg = map dataset svg"

definition element :: "string \<Rightarrow> svg_element" where
  "element t = \<lparr>tag = t, attrs = []\<rparr>"

definition attr :: "string \<Rightarrow> number \<Rightarrow> svg_element \<Rightarrow> svg_element" where
  "attr name v e = e\<lparr>attrs := AList.update name v (attrs e)\<rparr>"

definition append_each :: "((string \<times> string) list \<Rightarrow> svg_element) \<Rightarrow> node list \<Rightarrow> node list" where
  "append_each build svg = map (\<lambda>n. n\<lparr>children := children n @ [build (dataset n)]\<rparr>) svg"

subsection \<open>The render pass\<close>

text \<open>
  \<^verbatim>\<open>lollipop(component)\<close>. The component is given by its chart elements in document
  order. The result is the elements after the pass, together with the arguments at which
  the pass calls \<^verbatim>\<open>scale\<close>, in the order of the calls: once per row for \<^verbatim>\<open>cx\<close>, once at
  \<open>0\<close> for \<^verbatim>\<open>x1\<close> (an argument of \<^verbatim>\<open>.attr\<close>, evaluated whether or not there is a row),
  and once per row for \<^verbatim>\<open>x2\<close>.
\<close>

record render_pass =
  nodes :: "node list"
  scale_calls :: "number list"

definition score_of :: "(string \<Rightarrow> number) \<Rightarrow> (string \<times> string) list \<Rightarrow> number" where
  "score_of parse d = unary_plus parse (map_of d ''score_sentences'')"

definition lollipop :: "(string \<Rightarrow> number) \<Rightarrow> node list \<Rightarrow> render_pass" where
  "lollipop parse component =
     (let svg = component;
          maxscore = d3_max (map (score_of parse) (selection_data svg));
          r = Num 4;
          scale = scale_linear (Num 0, to_number maxscore) (r, Num 100 - r);
          svg1 = append_each (\<lambda>d.
                   attr ''r'' r
                     (attr ''cy'' (Num 8)
                       (attr ''cx'' (scale_apply scale (score_of parse d))
                         (element ''circle'')))) svg;
          x1 = scale_apply scale (Num 0);
          svg2 = append_each (\<lambda>d.
                   attr ''stroke-width'' (Num 1)
                     (attr ''y2'' (Num 8)
                       (attr ''y1'' (Num 8)
                         (attr ''x2'' (scale_apply scale (score_of parse d))
                           (attr ''x1'' x1
                             (element ''line'')))))) svg1
      in \<lparr>nodes = svg2,
          scale_calls = map (score_of parse) (selection_data svg) @ [Num 0]
                        @ map (score_of parse) (selection_data svg)\<rparr>)"

text \<open>Lines 172 to 178 on their own: the scale that a pass builds for a component.\<close>

definition lollipop_scale :: "(string \<Rightarrow> number) \<Rightarrow> node list \<Rightarrow> linear_scale" where
  "lollipop_scale parse component =
     (let svg = component;
          maxscore = d3_max (map (score_of parse) (selection_data svg));
          r = Num 4
      in scale_linear (Num 0, to_number maxscore) (r, Num 100 - r))"

text \<open>The maximum that the scale of a pass is built over, coerced as the domain is.\<close>

definition maxScore :: "(string \<Rightarrow> number) \<Rightarrow> node list \<Rightarrow> number" where
  "maxScore parse component =
     to_number (d3_max (map (score_of parse) (selection_data component)))"

text \<open>The dot and the line of one row, as the specification describes them.\<close>

definition spec_scale :: "number \<Rightarrow> number \<Rightarrow> number" where
  "spec_scale m x = Num 4 + (x / m) * Num 92"

definition dot :: "number \<Rightarrow> svg_element" where
  "dot x = \<lparr>tag = ''circle'', attrs = [(''cx'', x), (''cy'', Num 8), (''r'', Num 4)]\<rparr>"

definition line :: "number \<Rightarrow> number \<Rightarrow> svg_element" where
  "line x1 x2 = \<lparr>tag = ''line'',
     attrs = [(''x1'', x1), (''x2'', x2), (''y1'', Num 8), (''y2'', Num 8),
              (''stroke-width'', Num 1)]\<rparr>"

text \<open>A row element that has not been drawn on yet.\<close>

definition fresh :: "(string \<times> string) list \<Rightarrow> node" where
  "fresh d = \<lparr>dataset = d, children = []\<rparr>"

definition chart_row :: "string \<Rightarrow> node" where
  "chart_row s = fresh [(''score_sentences'', s)]"

subsection \<open>The store\<close>

text \<open>
  Modelled from the spec: the row of a result collection (the model class of the rows is
  not part of the sources). A row carries an occurrence count, a score and the flag of
  stem-grouped forms, which the filter compares with \<open>1\<close> and \<open>0\<close>; \<open>get\<close> reads a
  field by its name, as the filters and sorters of the store do. The field \<^verbatim>\<open>count\<close> is
  \<open>row_count\<close> here.
\<close>

record word_row =
  row_count :: nat
  score_sentences :: rat
  is_lemmatized :: int

definition get :: "word_row \<Rightarrow> string \<Rightarrow> rat option" where
  "get r field =
     (if field = ''count'' then Some (of_nat (row_count r))
      else if field = ''score_sentences'' then Some (score_sentences r)
      else if field = ''is_lemmatized'' then Some (of_int (is_lemmatized r))
      else None)"

datatype direction = ASC | DESC

record store_filter =
  filter_property :: string
  filter_value :: rat

record sorter =
  sort_property :: string
  sort_direction :: direction

text \<open>
  Modelled from the spec: the result collection (the store class of the UI framework is
  not part of the sources). A store holds the loaded rows in their current order, the
  filters and the sorters in force, and the load requests it has issued; a load is
  asynchronous, so issuing it records the request and leaves the rows as they are.
  \<^item> \<^verbatim>\<open>clearFilter()\<close> removes every filter;
  \<^item> \<^verbatim>\<open>filter({property, value})\<close> adds a filter to those in force; a row is visible
    when, for every filter in force, its property equals the filter's value;
  \<^item> \<^verbatim>\<open>sort({property, direction})\<close> makes the sorter the only one in force and
    orders the rows by the property, in the direction given; rows with equal keys keep
    their relative order, which the specification leaves open;
  \<^item> \<^verbatim>\<open>load({params})\<close> issues a request with the parameters.
\<close>

record store =
  records :: "word_row list"
  filters :: "store_filter list"
  sorters :: "sorter list"
  loads :: "(string \<times> string) list list"

definition clearFilter :: "store \<Rightarrow> store" where
  "clearFilter s = s\<lparr>filters := []\<rparr>"

definition filter_by :: "store_filter \<Rightarrow> store \<Rightarrow> store" where
  "filter_by f s = s\<lparr>filters := filters s @ [f]\<rparr>"

definition matches :: "store_filter \<Rightarrow> word_row \<Rightarrow> bool" where
  "matches f r = (get r (filter_property f) = Some (filter_value f))"

definition visible :: "store \<Rightarrow> word_row list" where
  "visible s = filter (\<lambda>r. list_all (\<lambda>f. matches f r) (filters s)) (records s)"

definition sort_rows :: "sorter \<Rightarrow> word_row list \<Rightarrow> word_row list" where
  "sort_rows so rs =
     (case sort_direction so of
        ASC \<Rightarrow> sort_key (\<lambda>r. get r (sort_property so)) rs
      | DESC \<Rightarrow> rev (sort_key (\<lambda>r. get r (sort_property so)) (rev rs)))"

definition sort_by :: "sorter \<Rightarrow> store \<Rightarrow> store" where
  "sort_by so s = s\<lparr>sorters := [so], records := sort_rows so (records s)\<rparr>"

definition load :: "(string \<times> string) list \<Rightarrow> store \<Rightarrow> store" where
  "load params s = s\<lparr>loads := loads s @ [params]\<rparr>"

subsection \<open>The option toggles\<close>

text \<open>
  A list view with its two flags and the store behind it (\<^verbatim>\<open>getStore()\<close>). A flag that
  was never set reads as false.
\<close>

record list_view =
  groupedByStem :: bool
  orderedByDiffProp :: bool
  getStore :: store

definition applyFilters :: "list_view \<Rightarrow> list_view" where
  "applyFilters frequent_words_list =
     (let store = getStore frequent_words_list;
          v = (if groupedByStem frequent_words_list then 1 else 0);
          store = clearFilter store;
          store = filter_by \<lparr>filter_property = ''is_lemmatized'', filter_value = v\<rparr> store
      in frequent_words_list\<lparr>getStore := store\<rparr>)"

definition applySorter :: "list_view \<Rightarrow> list_view" where
  "applySorter frequent_words_list =
     (let store = getStore frequent_words_list;
          property = ''count'';
          property = (if orderedByDiffProp frequent_words_list then ''score_sentences''
                      else property);
          store = sort_by \<lparr>sort_property = property, sort_direction = DESC\<rparr> store
      in frequent_words_list\<lparr>getStore := store\<rparr>)"

text \<open>The handler of \<^verbatim>\<open>optionEvent\<close>, given the view and the action of the option.\<close>

definition optionEvent :: "list_view \<Rightarrow> string \<Rightarrow> list_view" where
  "optionEvent view action =
     (if action = ''group-by-stem''
      then applyFilters (view\<lparr>groupedByStem := \<not> groupedByStem view\<rparr>)
      else if action = ''order-by-score''
      then applySorter (view\<lparr>orderedByDiffProp := \<not> orderedByDiffProp view\<rparr>)
      else view)"

subsection \<open>The layout panel\<close>

text \<open>
  Modelled from the spec: the panel host (the panel, its model and the form values are
  classes that are not part of the sources). A component is its class or xtype, its
  configuration, its child items and the element it was last shown by; the stores of the
  panel's model are shared with the list views, which therefore hold references to them.
  \<^verbatim>\<open>getComponent(id)\<close> is the item of the panel with that item id, if there is one,
  and \<^verbatim>\<open>add\<close> puts a component after the items of the panel.
\<close>

datatype store_ref = NStoreRef | VStoreRef | JStoreRef | PhrasesStoreRef

datatype config_value =
  Flag bool | Pixels int | Text string | Element string | Store store_ref | Owner

datatype component =
  Component (class_name: string) (config: "(string \<times> config_value) list")
    (items: "component list") (shownBy: "config_value option")

text \<open>
  The model of a layout panel: its four stores and the answer that \<^verbatim>\<open>isSameSlice()\<close>
  gives when the controller asks.
\<close>

record layout_panel_model =
  NStore :: store
  VStore :: store
  JStore :: store
  PhrasesStore :: store
  isSameSlice :: bool

record form_values =
  serialize :: "(string \<times> string) list"
  search :: "(string \<times> string) list list option"

record panel =
  formValues :: "form_values option"
  getLayoutPanelModel :: layout_panel_model
  panel_items :: "component list"

record environment =
  getInstance :: string
  getUsername :: string

definition getComponent :: "panel \<Rightarrow> string \<Rightarrow> component option" where
  "getComponent p key =
     find (\<lambda>c. map_of (config c) ''itemId'' = Some (Text key)) (panel_items p)"

definition add :: "component \<Rightarrow> panel \<Rightarrow> panel" where
  "add c p = p\<lparr>panel_items := panel_items p @ [c]\<rparr>"

definition showBy :: "config_value \<Rightarrow> component \<Rightarrow> component" where
  "showBy el c = Component (class_name c) (config c) (items c) (Some el)"

text \<open>\<^verbatim>\<open>Ext.apply(object, config)\<close>: copies every property of the second onto the first.\<close>

definition Ext_apply :: "(string \<times> string) list \<Rightarrow> (string \<times> string) list \<Rightarrow> (string \<times> string) list" where
  "Ext_apply object cfg = fold (\<lambda>(k, v). AList.update k v) cfg object"

definition list_panel :: "string \<Rightarrow> string \<Rightarrow> store_ref \<Rightarrow> component" where
  "list_panel t x s =
     Component ''Ext.panel.Panel'' [(''title'', Text t)]
       [Component x [(''xtype'', Text x), (''store'', Store s)] [] None] None"

definition showFrequentWordsOverlay :: "panel \<Rightarrow> panel" where
  "showFrequentWordsOverlay p =
     (if getComponent p ''frequent-words-overlay'' = None then
        (let button_el = Element ''span.panel-header-menubutton.frequent-words'';
             overlay = Component ''WordSeer.view.menu.MenuOverlay''
               [(''destroyOnClose'', Flag False),
                (''button'', button_el),
                (''floatParent'', Owner),
                (''itemId'', Text ''frequent-words-overlay''),
                (''title'', Text ''Frequent Words''),
                (''width'', Pixels 380),
                (''height'', Text ''75%''),
                (''layout'', Text ''accordion''),
                (''draggable'', Flag True)]
               [list_panel ''Nouns'' ''frequent-words'' NStoreRef,
                list_panel ''Verbs'' ''frequent-words'' VStoreRef,
                list_panel ''Adjectives'' ''frequent-words'' JStoreRef,
                list_panel ''Phrases'' ''phraseslist'' PhrasesStoreRef] None;
             overlay = showBy button_el overlay
         in add overlay p)
      else p)"

definition getFrequentWordForSlice :: "environment \<Rightarrow> panel \<Rightarrow> form_values \<Rightarrow> panel" where
  "getFrequentWordForSlice env p fv =
     (let p = (if formValues p = None then p\<lparr>formValues := Some fv\<rparr> else p)
      in if \<not> isSameSlice (getLayoutPanelModel p) then
           (let params = [(''instance'', getInstance env), (''user'', getUsername env)];
                params = Ext_apply params (serialize fv);
                params = (case search fv of
                            Some (first # _) \<Rightarrow> Ext_apply params first
                          | _ \<Rightarrow> params);
                model = getLayoutPanelModel p;
                model = model\<lparr>NStore := load params (NStore model)\<rparr>;
                model = model\<lparr>VStore := load params (VStore model)\<rparr>;
                model = model\<lparr>JStore := load params (JStore model)\<rparr>
            in p\<lparr>getLayoutPanelModel := model\<rparr>)
         else p)"

subsection \<open>Concrete inputs\<close>

text \<open>Small inputs on which the statements below are evaluated.\<close>

definition empty_store :: store where
  "empty_store = \<lparr>records = [], filters = [], sorters = [], loads = []\<rparr>"

definition example_rows :: "word_row list" where
  "example_rows = [\<lparr>row_count = 3, score_sentences = 2, is_lemmatized = 0\<rparr>,
                   \<lparr>row_count = 7, score_sentences = 1, is_lemmatized = 1\<rparr>]"

definition example_view :: list_view where
  "example_view = \<lparr>groupedByStem = False, orderedByDiffProp = False,
     getStore = empty_store\<lparr>records := example_rows\<rparr>\<rparr>"

definition example_panel :: "bool \<Rightarrow> panel" where
  "example_panel same = \<lparr>formValues = None,
     getLayoutPanelModel = \<lparr>NStore = empty_store, VStore = empty_store, JStore = empty_store,
       PhrasesStore = empty_store, isSameSlice = same\<rparr>,
     panel_items = []\<rparr>"

definition example_environment :: environment where
  "example_environment = \<lparr>getInstance = ''demo'', getUsername = ''ada''\<rparr>"

definition example_form_values :: form_values where
  "example_form_values = \<lparr>serialize = [(''phrases'', ''[]'')],
     search = Some [[(''gov'', ''whale'')]]\<rparr>"

section \<open>Properties of the render pass\<close>

subsection \<open>Auxiliary facts\<close>

lemma num_sub_zero: "x - Num 0 = x"
  by (cases x) (simp_all add: minus_number_def)

text \<open>The scale a pass builds is the specification's formula over the maximum score.\<close>

lemma lollipop_scale_spec:
  "scale_apply (lollipop_scale parse component) x = spec_scale (maxScore parse component) x"
  by (simp add: lollipop_scale_def maxScore_def Let_def scale_apply_def scale_linear_def
      spec_scale_def num_sub_zero) (simp add: minus_number_def)

text \<open>Every chart element keeps what it has and receives one dot and one line.\<close>

lemma nodes_lollipop:
  "nodes (lollipop parse component) =
     map (\<lambda>n. n\<lparr>children := children n @
            [dot (scale_apply (lollipop_scale parse component) (score_of parse (dataset n))),
             line (scale_apply (lollipop_scale parse component) (Num 0))
                  (scale_apply (lollipop_scale parse component) (score_of parse (dataset n)))]\<rparr>)
         component"
  by (simp add: lollipop_def lollipop_scale_def Let_def append_each_def attr_def element_def
      dot_def line_def)

lemma decimal_examples:
  "decimal ''0'' = Num 0" "decimal ''2'' = Num 2" "decimal ''5'' = Num 5"
  "decimal ''8'' = Num 8" "decimal ''10'' = Num 10" "decimal ''20'' = Num 20"
  "decimal ''n/a'' = NaN"
  by (simp_all add: decimal_def digit_of_def)

lemma score_of_chart_row: "score_of parse (dataset (chart_row s)) = parse s"
  by (simp add: score_of_def chart_row_def fresh_def unary_plus_def)

lemma spec_scale_examples:
  "spec_scale (Num 10) (Num 2) = Num (112 / 5)"
  "spec_scale (Num 10) (Num 8) = Num (388 / 5)"
  "spec_scale (Num 10) (Num 10) = Num 96"
  "spec_scale (Num 10) (Num 0) = Num 4"
  by (simp_all add: spec_scale_def plus_number_def times_number_def divide_number_def)

lemma spec_scale_ends:
  assumes "m \<noteq> 0"
  shows "spec_scale (Num m) (Num 0) = Num 4" "spec_scale (Num m) (Num m) = Num 96"
  using assms
  by (simp_all add: spec_scale_def plus_number_def times_number_def divide_number_def)

lemma spec_scale_NaN: "spec_scale m NaN = NaN" "spec_scale NaN x = NaN"
  by (cases m; cases x;
      simp add: spec_scale_def plus_number_def times_number_def divide_number_def)+




text \<open>
  A malformed score does not move the scale: the maximum passes over it, so the other
  rows are drawn where they would be drawn without the malformed row.
\<close>

lemma num_self_ge_iff: "num_self_ge b \<longleftrightarrow> b \<noteq> NaN"
  by (cases b) simp_all

lemma fold_max_skips_NaN:
  "fold (\<lambda>b a. if num_gt b a then b else a) (filter (\<lambda>x. x \<noteq> NaN) bs) a =
   fold (\<lambda>b a. if num_gt b a then b else a) bs a"
  by (induction bs arbitrary: a) simp_all

lemma d3_max_skips_NaN: "d3_max (filter (\<lambda>x. x \<noteq> NaN) xs) = d3_max xs"
  by (induction xs) (simp_all add: num_self_ge_iff fold_max_skips_NaN)

lemma lollipop_scale_skips_malformed:
  "lollipop_scale parse (filter (\<lambda>n. score_of parse (dataset n) \<noteq> NaN) component) =
   lollipop_scale parse component"
proof -
  have "map (score_of parse) (selection_data
          (filter (\<lambda>n. score_of parse (dataset n) \<noteq> NaN) component)) =
        filter (\<lambda>x. x \<noteq> NaN) (map (score_of parse) (selection_data component))"
    by (simp add: selection_data_def filter_map comp_def)
  then show ?thesis
    by (simp add: lollipop_scale_def d3_max_skips_NaN)
qed

subsection \<open>The geometry of a pass\<close>

text \<open>
  Claim C1. For a row set that is not empty, with \<open>maxScore\<close> the maximum of the coerced
  scores, the pass gives every row a dot with centre \<open>(scale(+score_sentences), 8)\<close> and
  radius \<open>4\<close> and a line from \<open>(scale(0), 8)\<close> to \<open>(scale(+score_sentences), 8)\<close> of
  stroke width \<open>1\<close>, where \<open>scale(x) = 4 + (x / maxScore) * 92\<close>; the line carries no
  \<^verbatim>\<open>stroke\<close> attribute.
\<close>

theorem lollipop_draws_dot_and_line:
  assumes "component \<noteq> []"
  shows "nodes (lollipop parse component) =
     map (\<lambda>n. n\<lparr>children := children n @
            [dot (spec_scale (maxScore parse component) (score_of parse (dataset n))),
             line (spec_scale (maxScore parse component) (Num 0))
                  (spec_scale (maxScore parse component) (score_of parse (dataset n)))]\<rparr>)
         component
     \<and> map_of (attrs (line x1 x2)) ''stroke'' = None"
  by (simp add: nodes_lollipop lollipop_scale_spec line_def)

text \<open>
  The example of claim C1: for the scores \<open>2\<close>, \<open>8\<close> and \<open>10\<close> the maximum is \<open>10\<close>
  and the dots are at \<open>22.4\<close>, \<open>77.6\<close> and \<open>96\<close>, each line starting at \<open>4\<close>.
\<close>

theorem lollipop_draws_dot_and_line_witness:
  "[chart_row ''2'', chart_row ''8'', chart_row ''10''] \<noteq> []
   \<and> maxScore decimal [chart_row ''2'', chart_row ''8'', chart_row ''10''] = Num 10
   \<and> map children (nodes (lollipop decimal [chart_row ''2'', chart_row ''8'', chart_row ''10''])) =
     [[dot (Num (112 / 5)), line (Num 4) (Num (112 / 5))],
      [dot (Num (388 / 5)), line (Num 4) (Num (388 / 5))],
      [dot (Num 96), line (Num 4) (Num 96)]]"
  using lollipop_draws_dot_and_line
          [of "[chart_row ''2'', chart_row ''8'', chart_row ''10'']" decimal]
  by (simp add: maxScore_def selection_data_def score_of_chart_row decimal_examples
      to_number_def spec_scale_examples) (simp add: chart_row_def fresh_def)

subsection \<open>The ends of the scale\<close>

text \<open>
  Claim C2 as stated fails when the maximum score is zero: a row set whose only score is
  \<open>0\<close> has \<open>maxScore = 0\<close>, and the scale cannot send that one point to both \<open>4\<close> and
  \<open>96\<close>.
\<close>

theorem scale_ends_zero_max_counterexample:
  "\<not> (scale_apply (lollipop_scale decimal [chart_row ''0'']) (Num 0) = Num 4
      \<and> scale_apply (lollipop_scale decimal [chart_row ''0''])
           (maxScore decimal [chart_row ''0'']) = Num 96)"
  by (simp add: lollipop_scale_spec maxScore_def selection_data_def score_of_chart_row
      decimal_examples to_number_def spec_scale_def plus_number_def times_number_def
      divide_number_def)

text \<open>
  Claim C2, amended. For a row set whose maximum score is a finite number other than
  zero, the scale of the pass sends \<open>0\<close> to \<open>4\<close> and the maximum to \<open>96\<close>, whatever
  else the row set holds.
\<close>

theorem scale_ends:
  assumes "maxScore parse component = Num m"
    and "m \<noteq> 0"
  shows "scale_apply (lollipop_scale parse component) (Num 0) = Num 4
       \<and> scale_apply (lollipop_scale parse component) (maxScore parse component) = Num 96"
  using assms by (simp add: lollipop_scale_spec spec_scale_ends)

theorem scale_ends_witness:
  "maxScore decimal [chart_row ''2'', chart_row ''8'', chart_row ''10''] = Num 10
   \<and> (10::rat) \<noteq> 0
   \<and> scale_apply (lollipop_scale decimal [chart_row ''2'', chart_row ''8'', chart_row ''10''])
        (Num 0) = Num 4
   \<and> scale_apply (lollipop_scale decimal [chart_row ''2'', chart_row ''8'', chart_row ''10''])
        (Num 10) = Num 96"
  using scale_ends [of decimal "[chart_row ''2'', chart_row ''8'', chart_row ''10'']" 10]
  by (simp add: maxScore_def selection_data_def score_of_chart_row decimal_examples
      to_number_def)

subsection \<open>The empty row set\<close>

text \<open>
  Claim C3 as stated fails in its last part: the pass has no guard for the empty row set,
  and it calls the scale once, at \<open>0\<close>, for the \<^verbatim>\<open>x1\<close> of the lines.
\<close>

theorem empty_pass_evaluates_scale: "scale_calls (lollipop decimal []) \<noteq> []"
  by (simp add: lollipop_def Let_def selection_data_def)

text \<open>
  Claim C3, amended. On the empty row set the pass draws no dot and no line and has no
  failing branch. It is not guarded: the maximum is undefined, the scale is built all
  the same and is called exactly once, at \<open>0\<close>, where it yields not-a-number; the value
  is set on no element.
\<close>

theorem empty_pass_draws_nothing:
  "nodes (lollipop parse []) = []
   \<and> d3_max (map (score_of parse) (selection_data [])) = None
   \<and> scale_calls (lollipop parse []) = [Num 0]
   \<and> scale_apply (lollipop_scale parse []) (Num 0) = NaN"
  by (simp add: nodes_lollipop lollipop_scale_spec maxScore_def selection_data_def
      to_number_def spec_scale_NaN)
     (simp add: lollipop_def Let_def selection_data_def)

subsection \<open>Passes that follow one another\<close>



subsection \<open>A malformed score\<close>

text \<open>
  Claim C8. In a row set with a row whose score coerces to not-a-number, the pass draws
  no valid geometry for that row: the dot and the line it is given have not-a-number
  for \<^verbatim>\<open>cx\<close> and for \<^verbatim>\<open>x2\<close>. The pass is not stopped by the row: every row of the
  set receives its dot and its line, at the positions of the scale.
\<close>

theorem malformed_row_drawn_with_NaN:
  assumes "i < length component"
    and "score_of parse (dataset (component ! i)) = NaN"
  shows "children (nodes (lollipop parse component) ! i) =
           children (component ! i) @
             [dot NaN, line (spec_scale (maxScore parse component) (Num 0)) NaN]
       \<and> nodes (lollipop parse component) =
           map (\<lambda>n. n\<lparr>children := children n @
             [dot (spec_scale (maxScore parse component) (score_of parse (dataset n))),
              line (spec_scale (maxScore parse component) (Num 0))
                   (spec_scale (maxScore parse component) (score_of parse (dataset n)))]\<rparr>)
             component"
  using assms by (simp add: nodes_lollipop lollipop_scale_spec spec_scale_NaN)

text \<open>
  With the scores \<^verbatim>\<open>n/a\<close> and \<open>5\<close>: the first row has a dot and a line at
  not-a-number, the second is drawn at \<open>96\<close>, the maximum being \<open>5\<close>.
\<close>

theorem malformed_row_drawn_with_NaN_witness:
  "(0::nat) < length [chart_row ''n/a'', chart_row ''5'']
   \<and> score_of decimal (dataset ([chart_row ''n/a'', chart_row ''5''] ! 0)) = NaN
   \<and> map children (nodes (lollipop decimal [chart_row ''n/a'', chart_row ''5''])) =
       [[dot NaN, line (Num 4) NaN], [dot (Num 96), line (Num 4) (Num 96)]]"
  using malformed_row_drawn_with_NaN [of 0 "[chart_row ''n/a'', chart_row ''5'']" decimal]
  by (simp add: score_of_chart_row decimal_examples maxScore_def selection_data_def
      to_number_def spec_scale_NaN spec_scale_ends)
     (simp add: chart_row_def fresh_def)

section \<open>Properties of the option toggles\<close>

subsection \<open>Auxiliary facts\<close>

lemma sorted_desc_sort_key:
  "sorted_wrt (\<lambda>a b. k b \<le> k a) (rev (sort_key k rs))"
  using sorted_sort_key [of k rs] by (simp add: sorted_wrt_rev sorted_map)

lemma sort_rows_DESC_sorted:
  "sorted_wrt (\<lambda>a b. get b p \<le> get a p)
     (sort_rows \<lparr>sort_property = p, sort_direction = DESC\<rparr> rs)"
  by (simp add: sort_rows_def sorted_desc_sort_key)

lemma sort_rows_mset: "mset (sort_rows so rs) = mset rs"
  by (cases "sort_direction so") (simp_all add: sort_rows_def)

subsection \<open>Grouping by stem\<close>

text \<open>
  Claim C5. Whatever the view and the filters in force, the group-by-stem toggle flips
  \<open>groupedByStem\<close>, and afterwards exactly one filter is in force: the one that keeps the
  rows whose \<open>is_lemmatized\<close> is \<open>1\<close> when the new flag is true and \<open>0\<close> when it is
  false. The earlier filters are gone, so the visible rows are the loaded rows with that
  value.
\<close>

theorem group_by_stem_toggle:
  "groupedByStem (optionEvent view ''group-by-stem'') = (\<not> groupedByStem view)
   \<and> filters (getStore (optionEvent view ''group-by-stem'')) =
       [\<lparr>filter_property = ''is_lemmatized'',
          filter_value = (if groupedByStem (optionEvent view ''group-by-stem'') then 1 else 0)\<rparr>]
   \<and> visible (getStore (optionEvent view ''group-by-stem'')) =
       filter (\<lambda>r. is_lemmatized r =
                 (if groupedByStem (optionEvent view ''group-by-stem'') then 1 else 0))
         (records (getStore view))"
  by (simp add: optionEvent_def applyFilters_def Let_def clearFilter_def filter_by_def
      visible_def matches_def get_def)

text \<open>
  The example of the specification: from false to true on rows with \<open>is_lemmatized\<close>
  \<open>0\<close> and \<open>1\<close>, only the row with \<open>1\<close> stays visible.
\<close>

theorem group_by_stem_toggle_witness:
  "groupedByStem (optionEvent example_view ''group-by-stem'')
   \<and> visible (getStore (optionEvent example_view ''group-by-stem'')) = [example_rows ! 1]"
  using group_by_stem_toggle [of example_view]
  by (simp add: example_view_def example_rows_def empty_store_def)

subsection \<open>Ordering by score\<close>

text \<open>
  Claim C6. Whatever the view, the order-by-score toggle flips \<open>orderedByDiffProp\<close> and
  sorts the store with one sorter, whose direction is descending and whose key is
  \<open>score_sentences\<close> when the new flag is true and \<open>count\<close> when it is false: the rows
  are the same rows, in descending order of that key.
\<close>

theorem order_by_score_toggle:
  "orderedByDiffProp (optionEvent view ''order-by-score'') = (\<not> orderedByDiffProp view)
   \<and> sorters (getStore (optionEvent view ''order-by-score'')) =
       [\<lparr>sort_property =
            (if orderedByDiffProp (optionEvent view ''order-by-score'')
             then ''score_sentences'' else ''count''),
          sort_direction = DESC\<rparr>]
   \<and> (if orderedByDiffProp (optionEvent view ''order-by-score'')
       then sorted_wrt (\<lambda>a b. score_sentences b \<le> score_sentences a)
              (records (getStore (optionEvent view ''order-by-score'')))
       else sorted_wrt (\<lambda>a b. row_count b \<le> row_count a)
              (records (getStore (optionEvent view ''order-by-score''))))
   \<and> mset (records (getStore (optionEvent view ''order-by-score''))) =
       mset (records (getStore view))"
proof -
  have by_count: "sorted_wrt (\<lambda>a b. row_count b \<le> row_count a)
      (sort_rows \<lparr>sort_property = ''count'', sort_direction = DESC\<rparr> rs)" for rs
    using sort_rows_DESC_sorted [of "''count''" rs] by (simp add: get_def)
  have by_score: "sorted_wrt (\<lambda>a b. score_sentences b \<le> score_sentences a)
      (sort_rows \<lparr>sort_property = ''score_sentences'', sort_direction = DESC\<rparr> rs)" for rs
    using sort_rows_DESC_sorted [of "''score_sentences''" rs] by (simp add: get_def)
  show ?thesis
    by (simp add: optionEvent_def applySorter_def Let_def sort_by_def by_count by_score
        sort_rows_mset)
qed

text \<open>
  On the example rows, with scores \<open>2\<close>, \<open>1\<close> and counts \<open>3\<close>, \<open>7\<close>: the first toggle
  orders by score and keeps the order, the second orders by count and reverses it.
\<close>

theorem order_by_score_toggle_witness:
  "records (getStore (optionEvent example_view ''order-by-score'')) = example_rows
   \<and> \<not> orderedByDiffProp
         (optionEvent (optionEvent example_view ''order-by-score'') ''order-by-score'')
   \<and> records (getStore
         (optionEvent (optionEvent example_view ''order-by-score'') ''order-by-score'')) =
       rev example_rows"
  using order_by_score_toggle [of example_view]
    order_by_score_toggle [of "optionEvent example_view ''order-by-score''"]
  by (simp add: optionEvent_def applySorter_def Let_def sort_by_def sort_rows_def
      example_view_def example_rows_def empty_store_def get_def)

subsection \<open>Grouping by stem, twice\<close>

text \<open>
  Claim C7 as stated fails in its second part: on a store that carries no filter yet,
  both example rows are visible; after two toggles the flag is back to false, but the
  store is filtered by \<open>is_lemmatized = 0\<close> and only the first row is visible.
\<close>

theorem group_by_stem_twice_counterexample:
  "groupedByStem (optionEvent (optionEvent example_view ''group-by-stem'') ''group-by-stem'') =
     groupedByStem example_view
   \<and> visible (getStore example_view) = example_rows
   \<and> visible (getStore (optionEvent (optionEvent example_view ''group-by-stem'')
        ''group-by-stem'')) = [hd example_rows]
   \<and> [hd example_rows] \<noteq> example_rows"
  by (simp add: example_view_def optionEvent_def applyFilters_def Let_def clearFilter_def
      filter_by_def visible_def matches_def get_def example_rows_def empty_store_def)

text \<open>
  Claim C7, amended. Two group-by-stem toggles in a row return \<open>groupedByStem\<close> to its
  value and leave the store with exactly one filter, the one of that value, so that the
  visible rows are the loaded rows whose \<open>is_lemmatized\<close> is \<open>1\<close> for true and \<open>0\<close> for
  false. When that filter was the one in force before the first toggle, as it is after
  any earlier toggle, the view and its store are as they were.
\<close>

theorem group_by_stem_twice:
  "groupedByStem (optionEvent (optionEvent view ''group-by-stem'') ''group-by-stem'') =
     groupedByStem view
   \<and> filters (getStore (optionEvent (optionEvent view ''group-by-stem'') ''group-by-stem'')) =
       [\<lparr>filter_property = ''is_lemmatized'',
          filter_value = (if groupedByStem view then 1 else 0)\<rparr>]
   \<and> visible (getStore (optionEvent (optionEvent view ''group-by-stem'') ''group-by-stem'')) =
       filter (\<lambda>r. is_lemmatized r = (if groupedByStem view then 1 else 0))
         (records (getStore view))
   \<and> (filters (getStore view) =
         [\<lparr>filter_property = ''is_lemmatized'',
            filter_value = (if groupedByStem view then 1 else 0)\<rparr>]
       \<longrightarrow> optionEvent (optionEvent view ''group-by-stem'') ''group-by-stem'' = view)"
  by (simp add: optionEvent_def applyFilters_def Let_def clearFilter_def filter_by_def
      visible_def matches_def get_def)

theorem group_by_stem_twice_witness:
  "filters (getStore (optionEvent example_view ''group-by-stem'')) =
     [\<lparr>filter_property = ''is_lemmatized'',
        filter_value = (if groupedByStem (optionEvent example_view ''group-by-stem'')
                        then 1 else 0)\<rparr>]
   \<and> optionEvent (optionEvent (optionEvent example_view ''group-by-stem'') ''group-by-stem'')
       ''group-by-stem'' = optionEvent example_view ''group-by-stem''"
  using group_by_stem_twice [of "optionEvent example_view ''group-by-stem''"]
  by (simp add: optionEvent_def applyFilters_def Let_def clearFilter_def filter_by_def)

section \<open>Properties of the layout panel\<close>

subsection \<open>Auxiliary facts\<close>

lemma getComponent_present:
  assumes "c \<in> set (panel_items p)" and "map_of (config c) ''itemId'' = Some (Text key)"
  shows "getComponent p key \<noteq> None"
  using assms by (auto simp: getComponent_def find_None_iff)

lemma find_snoc: "find P xs = None \<Longrightarrow> find P (xs @ [y]) = (if P y then Some y else None)"
  by (induction xs) (simp_all split: if_splits)

lemma example_overlay:
  "panel_items (showFrequentWordsOverlay (example_panel b)) \<noteq> []"
  "map_of (config (hd (panel_items (showFrequentWordsOverlay (example_panel b))))) ''itemId''
     = Some (Text ''frequent-words-overlay'')"
  by (simp_all add: showFrequentWordsOverlay_def example_panel_def getComponent_def Let_def
      add_def showBy_def)

subsection \<open>The overlay\<close>

text \<open>
  Claim C9. On a panel that already holds a component whose item id is
  \<^verbatim>\<open>frequent-words-overlay\<close>, showing the overlay changes nothing: no overlay is built,
  none is added, and there is no failing branch. An overlay is added only to a panel
  without such a component.
\<close>

theorem overlay_shown_once:
  assumes "c \<in> set (panel_items p)"
    and "map_of (config c) ''itemId'' = Some (Text ''frequent-words-overlay'')"
  shows "showFrequentWordsOverlay p = p"
proof -
  have "getComponent p ''frequent-words-overlay'' \<noteq> None"
    by (rule getComponent_present [OF assms])
  then show ?thesis
    unfolding showFrequentWordsOverlay_def by (simp only: if_False)
qed

text \<open>A panel that has been given the overlay once is left alone the second time.\<close>

theorem overlay_shown_once_witness:
  "hd (panel_items (showFrequentWordsOverlay (example_panel False)))
     \<in> set (panel_items (showFrequentWordsOverlay (example_panel False)))
   \<and> map_of (config (hd (panel_items (showFrequentWordsOverlay (example_panel False)))))
        ''itemId'' = Some (Text ''frequent-words-overlay'')
   \<and> showFrequentWordsOverlay (showFrequentWordsOverlay (example_panel False)) =
       showFrequentWordsOverlay (example_panel False)"
  using overlay_shown_once
          [of "hd (panel_items (showFrequentWordsOverlay (example_panel False)))"
              "showFrequentWordsOverlay (example_panel False)"]
  by (simp add: example_overlay)

text \<open>
  The other branch: on a panel without the component, one overlay with the four lists is
  put after the items of the panel, and it is the component found from then on.
\<close>

lemma overlay_added_when_absent:
  assumes "getComponent p ''frequent-words-overlay'' = None"
  shows "\<exists>overlay. panel_items (showFrequentWordsOverlay p) = panel_items p @ [overlay]
           \<and> map_of (config overlay) ''itemId'' = Some (Text ''frequent-words-overlay'')
           \<and> map (\<lambda>c. map_of (config c) ''title'') (items overlay) =
               [Some (Text ''Nouns''), Some (Text ''Verbs''), Some (Text ''Adjectives''),
                Some (Text ''Phrases'')]
           \<and> getComponent (showFrequentWordsOverlay p) ''frequent-words-overlay'' = Some overlay"
  using assms
  by (simp add: showFrequentWordsOverlay_def Let_def add_def showBy_def list_panel_def
      getComponent_def find_snoc)

subsection \<open>Loading the frequent words of a slice\<close>

text \<open>
  Claim C10. When the model of the panel answers that the slice is the same, the loader
  issues no load on the noun, verb and adjective stores: the model and its stores are as
  they were, whatever the form values. Loads are therefore issued only when the answer
  is that the slice is not the same.
\<close>

theorem same_slice_issues_no_load:
  assumes "isSameSlice (getLayoutPanelModel p)"
  shows "getLayoutPanelModel (getFrequentWordForSlice env p fv) = getLayoutPanelModel p
       \<and> loads (NStore (getLayoutPanelModel (getFrequentWordForSlice env p fv))) =
           loads (NStore (getLayoutPanelModel p))
       \<and> loads (VStore (getLayoutPanelModel (getFrequentWordForSlice env p fv))) =
           loads (VStore (getLayoutPanelModel p))
       \<and> loads (JStore (getLayoutPanelModel (getFrequentWordForSlice env p fv))) =
           loads (JStore (getLayoutPanelModel p))"
  using assms by (simp add: getFrequentWordForSlice_def Let_def)

theorem same_slice_issues_no_load_witness:
  "isSameSlice (getLayoutPanelModel (example_panel True))
   \<and> getLayoutPanelModel
        (getFrequentWordForSlice example_environment (example_panel True) example_form_values) =
      getLayoutPanelModel (example_panel True)"
  using same_slice_issues_no_load [of "example_panel True" example_environment example_form_values]
  by (simp add: example_panel_def)

text \<open>
  The other branch: for a new slice each of the three stores is sent one load, with the
  same parameters, and the phrases store is not touched.
\<close>

lemma new_slice_loads:
  assumes "\<not> isSameSlice (getLayoutPanelModel p)"
  shows "\<exists>params.
      loads (NStore (getLayoutPanelModel (getFrequentWordForSlice env p fv))) =
        loads (NStore (getLayoutPanelModel p)) @ [params]
    \<and> loads (VStore (getLayoutPanelModel (getFrequentWordForSlice env p fv))) =
        loads (VStore (getLayoutPanelModel p)) @ [params]
    \<and> loads (JStore (getLayoutPanelModel (getFrequentWordForSlice env p fv))) =
        loads (JStore (getLayoutPanelModel p)) @ [params]
    \<and> PhrasesStore (getLayoutPanelModel (getFrequentWordForSlice env p fv)) =
        PhrasesStore (getLayoutPanelModel p)"
  using assms by (simp add: getFrequentWordForSlice_def Let_def load_def)

lemma new_slice_example:
  "loads (NStore (getLayoutPanelModel
      (getFrequentWordForSlice example_environment (example_panel False) example_form_values))) =
   [[(''instance'', ''demo''), (''user'', ''ada''), (''phrases'', ''[]''), (''gov'', ''whale'')]]"
  by (simp add: getFrequentWordForSlice_def Let_def load_def example_panel_def
      example_environment_def example_form_values_def Ext_apply_def empty_store_def)

end
